theory Spec2Isabelle
  imports Main
begin

section \<open>Data model\<close>

text \<open>
  The module \<^verbatim>\<open>compressed_tensors.py\<close> decides, per layer, which quantization scheme
  object is attached. The enumerations and the argument classes come from the
  \<^verbatim>\<open>compressed_tensors\<close> library; they are modelled with the fields the module reads.
  Python names that start with an underscore lose it here
  (\<^verbatim>\<open>_is_fp8_w8a8\<close> is \<open>is_fp8_w8a8\<close>).
\<close>

text \<open>\<^verbatim>\<open>QuantizationType.INT\<close> is \<open>INT_TYPE\<close>: \<open>INT\<close> is the intersection binder in HOL.\<close>

datatype QuantizationType = FLOAT | INT_TYPE

datatype QuantizationStrategy = TENSOR | CHANNEL | GROUP | TOKEN

datatype SparsityStructure = TWO_FOUR | UNSTRUCTURED

datatype CompressionFormat =
    dense | sparse_bitmask | sparse_24_bitmask | int_quantized | float_quantized
  | naive_quantized | pack_quantized | marlin_24

record QuantizationArgs =
  num_bits :: int
  qtype :: QuantizationType
  strategy :: QuantizationStrategy
  symmetric :: bool
  dynamic :: bool
  group_size :: "int option"
  actorder :: "string option"

record SparsityCompressionConfig =
  format :: CompressionFormat
  sparsity_structure :: SparsityStructure

text \<open>The raw \<^verbatim>\<open>quantization_config\<close> dictionary is only passed on, never inspected.\<close>

type_synonym raw_config = "(string \<times> string) list"

text \<open>
  Every \<^verbatim>\<open>raise\<close>, failed \<^verbatim>\<open>assert\<close>, attribute access on \<^verbatim>\<open>None\<close> and use of an
  unbound global is a value of \<open>error\<close>. \<open>RuntimeError m c\<close> is the capability error,
  whose message names the required capability \<open>m\<close> and the current one \<open>c\<close>.
\<close>

datatype error =
    AssertionError
  | AttributeError
  | NameError string
  | ImportError
  | NotImplementedError
  | RuntimeError int int
  | ValueError
  | KeyError string

text \<open>
  The scheme objects the module builds, with the keyword arguments of each constructor
  call in the order listed:
  \<^item> \<open>CompressedTensorsW8A8Fp8 strategy is_static_input_scheme\<close>
  \<^item> \<open>CompressedTensorsW8A16Fp8 strategy is_static_input_scheme\<close>
  \<^item> \<open>CompressedTensorsWNA16 num_bits strategy group_size actorder\<close>
  \<^item> \<open>CompressedTensorsW4A16Sparse24 strategy num_bits group_size\<close>
  \<^item> \<open>CompressedTensorsW8A8Int8 strategy is_static_input_scheme input_symmetric\<close>
  \<^item> \<open>CompressedTensors24 quantized weight_quant input_quant model_compression_config\<close>

  \<^verbatim>\<open>is_static_input_scheme\<close> is computed as \<^verbatim>\<open>input_quant and not input_quant.dynamic\<close>,
  which is \<^verbatim>\<open>None\<close> when \<^verbatim>\<open>input_quant\<close> is \<^verbatim>\<open>None\<close>: a \<open>bool option\<close>.
\<close>

datatype CompressedTensorsScheme =
    CompressedTensorsW8A8Fp8 QuantizationStrategy "bool option"
  | CompressedTensorsW8A16Fp8 QuantizationStrategy "bool option"
  | CompressedTensorsWNA16 int QuantizationStrategy "int option" "string option"
  | CompressedTensorsW4A16Sparse24 QuantizationStrategy int "int option"
  | CompressedTensorsW8A8Int8 QuantizationStrategy "bool option" bool
  | CompressedTensors24 bool "QuantizationArgs option" "QuantizationArgs option"
      "raw_config option"

text \<open>\<^verbatim>\<open>scheme.__class__.__name__\<close>\<close>

fun class_name :: "CompressedTensorsScheme \<Rightarrow> string" where
  "class_name (CompressedTensorsW8A8Fp8 _ _) = ''CompressedTensorsW8A8Fp8''"
| "class_name (CompressedTensorsW8A16Fp8 _ _) = ''CompressedTensorsW8A16Fp8''"
| "class_name (CompressedTensorsWNA16 _ _ _ _) = ''CompressedTensorsWNA16''"
| "class_name (CompressedTensorsW4A16Sparse24 _ _ _) = ''CompressedTensorsW4A16Sparse24''"
| "class_name (CompressedTensorsW8A8Int8 _ _ _) = ''CompressedTensorsW8A8Int8''"
| "class_name (CompressedTensors24 _ _ _ _) = ''CompressedTensors24''"

text \<open>
  A layer: the class the \<^verbatim>\<open>isinstance\<close> tests of \<^verbatim>\<open>get_quant_method\<close> look at, and the
  \<^verbatim>\<open>scheme\<close> attribute that \<^verbatim>\<open>get_quant_method\<close> sets.
\<close>

datatype ModuleClass = LinearBase | FusedMoE | OtherModule

record Module =
  module_class :: ModuleClass
  scheme :: "CompressedTensorsScheme option"

text \<open>
  One entry of \<^verbatim>\<open>target_scheme_map\<close>: what \<^verbatim>\<open>scheme_dict.get("weights")\<close> and
  \<^verbatim>\<open>scheme_dict.get("input_activations")\<close> return (\<^verbatim>\<open>None\<close> for a missing key).
\<close>

record scheme_dict =
  weights :: "QuantizationArgs option"
  input_activations :: "QuantizationArgs option"

text \<open>\<^verbatim>\<open>class CompressedTensorsConfig\<close>; dictionaries are association lists.\<close>

record CompressedTensorsConfig =
  ignore :: "string list"
  quant_format :: CompressionFormat
  target_scheme_map :: "(string \<times> scheme_dict) list"
  sparsity_scheme_map :: "(string \<times> SparsityCompressionConfig) list"
  sparsity_ignore_list :: "string list"
  config :: "raw_config option"
  packed_modules_mapping :: "(string \<times> string list) list"

datatype QuantizeMethodBase =
    UnquantizedLinearMethod
  | CompressedTensorsLinearMethod CompressedTensorsConfig
  | CompressedTensorsMoEMethod

datatype LogRecord = Warning string | Debug string "string option"

section \<open>What the module takes from its surroundings\<close>

text \<open>
  The helpers imported from \<^verbatim>\<open>compressed_tensors/utils.py\<close>, the scheme classes'
  \<^verbatim>\<open>get_min_capability\<close>, the constant \<^verbatim>\<open>WNA16_SUPPORTED_BITS\<close>, the device query of torch
  and the logger are not part of this file; they are the fields of \<open>Env\<close>:
  \<^item> \<open>VLLM_AVAILABLE\<close>: whether vllm is installed, that is, whether the guarded
    \<^verbatim>\<open>try: from vllm... import\<close> succeeded;
  \<^item> \<open>WNA16_SUPPORTED_BITS\<close>: the list that import binds;
  \<^item> \<open>get_device_capability\<close>: \<^verbatim>\<open>torch.cuda.get_device_capability()\<close>, a pair
    (major, minor);
  \<^item> \<open>is_activation_quantization_format\<close>: the predicate on the format;
  \<^item> \<open>get_min_capability\<close>: the minimum capability of a scheme class, by class name;
  \<^item> \<open>find_matched_target layer_name module targets fused_mapping\<close>: the matched target,
    or the error it raises (\<open>ValueError\<close> when nothing matches);
  \<^item> \<open>should_ignore_layer prefix ignore fused_mapping\<close>;
  \<^item> \<open>logger_has_warning_once\<close>: whether the object returned by
    \<^verbatim>\<open>logging.getLogger(__name__)\<close> has a \<^verbatim>\<open>warning_once\<close> method (the class
    \<^verbatim>\<open>logging.Logger\<close> of the standard library defines none);
  \<^item> \<open>get_moe_method\<close>: the result of \<^verbatim>\<open>CompressedTensorsMoEMethod.get_moe_method(self)\<close>.
\<close>

record Env =
  VLLM_AVAILABLE :: bool
  WNA16_SUPPORTED_BITS :: "int list"
  get_device_capability :: "int \<times> int"
  is_activation_quantization_format :: "CompressionFormat \<Rightarrow> bool"
  get_min_capability :: "string \<Rightarrow> int"
  find_matched_target ::
    "string option \<Rightarrow> Module \<Rightarrow> string list \<Rightarrow> (string \<times> string list) list \<Rightarrow> error + string"
  should_ignore_layer :: "string \<Rightarrow> string list \<Rightarrow> (string \<times> string list) list \<Rightarrow> bool"
  logger_has_warning_once :: bool
  get_moe_method :: "error + QuantizeMethodBase"

section \<open>Names bound in the module\<close>

text \<open>
  A global name used inside a function is looked up when the line runs, and raises
  \<^verbatim>\<open>NameError\<close> if the module never bound it. \<open>module_globals\<close> lists what the module binds:
  its \<^verbatim>\<open>import\<close> statements, its assignments and its class definitions. The two names of
  the guarded \<^verbatim>\<open>try: from vllm... import (WNA16_SUPPORTED_BITS, CompressedTensorsWNA16)\<close>
  are bound only when that import succeeds. The module has no \<^verbatim>\<open>import *\<close>.
\<close>

definition module_globals :: "bool \<Rightarrow> string list" where
  "module_globals vllm_available =
     [''annotations'', ''logging'', ''suppress'', ''Any'', ''Dict'', ''List'', ''Literal'', ''NamedTuple'',
      ''Optional'', ''Tuple'', ''cast'', ''torch'',
      ''CompressionFormat'', ''SparsityCompressionConfig'', ''SparsityStructure'',
      ''QuantizationArgs'', ''QuantizationStrategy'', ''QuantizationType'',
      ''BaseModel'',
      ''LinearMethodBase'', ''QuantizationConfig'', ''QuantizeMethodBase'',
      ''CompressedTensorsMoEMethod'',
      ''CompressedTensorsScheme'', ''CompressedTensorsW8A8Fp8'', ''CompressedTensorsW8A16Fp8'',
      ''find_matched_target'', ''is_activation_quantization_format'', ''should_ignore_layer'',
      ''UnquantizedLinearMethod'',
      ''VLLM_AVAILABLE'', ''logger'', ''__all__'', ''SPARSITY_CONFIG_NAME'',
      ''QUANTIZATION_SCHEME_MAP_TYPE'',
      ''DeviceCapability'', ''CompressedTensorsConfig'', ''CompressedTensorsLinearMethod'']
     @ (if vllm_available then [''WNA16_SUPPORTED_BITS'', ''CompressedTensorsWNA16''] else [])"

definition load_global :: "Env \<Rightarrow> string \<Rightarrow> error + unit" where
  "load_global env name =
     (if name \<in> set (module_globals (VLLM_AVAILABLE env)) then Inr () else Inl (NameError name))"

text \<open>
  The value of a global that holds a list of bit widths. \<^verbatim>\<open>WNA16_SUPPORTED_BITS\<close> is the
  only such name the module can bind.
\<close>

definition load_global_bits :: "Env \<Rightarrow> string \<Rightarrow> error + int list" where
  "load_global_bits env name =
     (case load_global env name of
        Inl e \<Rightarrow> Inl e
      | Inr _ \<Rightarrow>
          if name = ''WNA16_SUPPORTED_BITS'' then Inr (WNA16_SUPPORTED_BITS env)
          else Inl (NameError name))"

section \<open>Device capability gate\<close>

record DeviceCapability =
  major :: int
  minor :: int

text \<open>\<^verbatim>\<open>DeviceCapability.to_int\<close>: \<^verbatim>\<open>assert 0 <= self.minor < 10\<close>, then
  \<^verbatim>\<open>self.major * 10 + self.minor\<close>.\<close>

definition to_int :: "DeviceCapability \<Rightarrow> error + int" where
  "to_int c =
     (if 0 \<le> minor c \<and> minor c < 10 then Inr (major c * 10 + minor c)
      else Inl AssertionError)"

text \<open>
  \<^verbatim>\<open>_check_scheme_supported(self, min_capability, error=True)\<close>. The tuple built from the
  device query is never \<^verbatim>\<open>None\<close>; the \<^verbatim>\<open>else: return False\<close> branch is kept as the source
  has it.
\<close>

definition check_scheme_supported :: "Env \<Rightarrow> int \<Rightarrow> bool \<Rightarrow> error + bool" where
  "check_scheme_supported env min_capability err =
     (let capability_tuple =
            Some \<lparr> major = fst (get_device_capability env),
                   minor = snd (get_device_capability env) \<rparr>
      in case capability_tuple of
           Some c \<Rightarrow>
             (case to_int c of
                Inl e \<Rightarrow> Inl e
              | Inr capability \<Rightarrow>
                  (let supported = (capability \<ge> min_capability)
                   in if err \<and> \<not> supported
                      then Inl (RuntimeError min_capability capability)
                      else Inr supported))
         | None \<Rightarrow> Inr False)"

section \<open>Eligibility predicates\<close>

text \<open>
  The arguments are \<^verbatim>\<open>None\<close> or a \<^verbatim>\<open>QuantizationArgs\<close>. A predicate that reads an attribute
  of an argument without testing it for \<^verbatim>\<open>None\<close> raises \<^verbatim>\<open>AttributeError\<close> there.
  \<^verbatim>\<open>a.num_bits == b.num_bits == 8\<close> reads both attributes before comparing.
\<close>

definition is_static_tensor_w8a8 ::
  "QuantizationArgs option \<Rightarrow> QuantizationArgs option \<Rightarrow> error + bool" where
  "is_static_tensor_w8a8 weight_quant input_quant =
     (case weight_quant of
        None \<Rightarrow> Inl AttributeError
      | Some w \<Rightarrow>
          (case input_quant of
             None \<Rightarrow> Inl AttributeError
           | Some i \<Rightarrow>
               (let is_8_bits = (num_bits w = num_bits i \<and> num_bits i = 8);
                    weight_strategy = (strategy w = TENSOR \<or> strategy w = CHANNEL);
                    is_tensor = (weight_strategy \<and> strategy i = TENSOR);
                    is_static = (\<not> dynamic w \<and> \<not> dynamic i)
                in Inr (is_8_bits \<and> is_tensor \<and> symmetric w \<and> is_static))))"

definition is_dynamic_token_w8a8 ::
  "QuantizationArgs option \<Rightarrow> QuantizationArgs option \<Rightarrow> error + bool" where
  "is_dynamic_token_w8a8 weight_quant input_quant =
     (case weight_quant of
        None \<Rightarrow> Inl AttributeError
      | Some w \<Rightarrow>
          (case input_quant of
             None \<Rightarrow> Inl AttributeError
           | Some i \<Rightarrow>
               (let is_8_bits = (num_bits w = num_bits i \<and> num_bits i = 8);
                    weight_strategy = (strategy w = TENSOR \<or> strategy w = CHANNEL);
                    is_token = (weight_strategy \<and> strategy i = TOKEN);
                    is_dynamic = (\<not> dynamic w \<and> dynamic i)
                in Inr (is_8_bits \<and> is_token \<and> symmetric w \<and> is_dynamic))))"

definition is_fp8_w8a8 ::
  "QuantizationArgs option \<Rightarrow> QuantizationArgs option \<Rightarrow> bool" where
  "is_fp8_w8a8 weight_quant input_quant =
     (case weight_quant of
        None \<Rightarrow> False
      | Some w \<Rightarrow>
          (case input_quant of
             None \<Rightarrow> False
           | Some i \<Rightarrow>
               (let is_floating_point = (qtype w = FLOAT \<and> qtype i = FLOAT);
                    is_symmetric_weight = symmetric w;
                    is_static_weight = (\<not> dynamic w);
                    is_per_tensor_or_channel_weight = (strategy w \<in> set [TENSOR, CHANNEL])
                in if \<not> (is_floating_point \<and> is_symmetric_weight \<and> is_static_weight
                          \<and> is_per_tensor_or_channel_weight)
                   then False
                   else if dynamic i then True
                   else (let is_symmetric_activation = symmetric i;
                             is_per_tensor_activation = (strategy i = TENSOR)
                         in is_symmetric_activation \<and> is_per_tensor_activation))))"

definition is_fp8_w8a16 ::
  "QuantizationArgs option \<Rightarrow> QuantizationArgs option \<Rightarrow> bool" where
  "is_fp8_w8a16 weight_quant input_quant =
     (case weight_quant of
        None \<Rightarrow> False
      | Some w \<Rightarrow>
          if qtype w \<noteq> FLOAT then False
          else (let is_symmetric_weight = symmetric w;
                    is_static_weight = (\<not> dynamic w);
                    is_per_tensor_or_channel_weight = (strategy w \<in> set [TENSOR, CHANNEL])
                in if \<not> (is_symmetric_weight \<and> is_static_weight
                          \<and> is_per_tensor_or_channel_weight)
                   then False
                   else True))"

definition is_wNa16_group_channel ::
  "QuantizationArgs option \<Rightarrow> QuantizationArgs option \<Rightarrow> error + bool" where
  "is_wNa16_group_channel weight_quant input_quant =
     (let input_quant_none = (input_quant = None)
      in case weight_quant of
           None \<Rightarrow> Inl AttributeError
         | Some w \<Rightarrow>
             (let is_symmetric = symmetric w;
                  is_channel_group = (strategy w = CHANNEL \<or> strategy w = GROUP);
                  is_static = (\<not> dynamic w)
              in Inr (is_channel_group \<and> input_quant_none \<and> is_symmetric \<and> is_static)))"

section \<open>Scheme classifier\<close>

text \<open>
  Modelled from the spec: the constructors of the scheme classes live in the \<^verbatim>\<open>schemes\<close>
  package and in vllm, not in this file. The specification's error taxonomy has the
  missing-optional-dependency error: a scheme implementation sourced from an optional
  external library is unavailable, which is fatal. The FP8 weight-only scheme
  \<^verbatim>\<open>CompressedTensorsW8A16Fp8\<close> is such an implementation: its kernels come from vllm, and
  the module itself raises \<^verbatim>\<open>ImportError\<close> for this class before its second call
  (\<^verbatim>\<open>if not VLLM_AVAILABLE: raise ImportError\<close>). Its constructor raises \<^verbatim>\<open>ImportError\<close> when
  vllm is not installed; the other constructors store their arguments.
\<close>

fun construct :: "Env \<Rightarrow> CompressedTensorsScheme \<Rightarrow> error + CompressedTensorsScheme" where
  "construct env (CompressedTensorsW8A16Fp8 st f) =
     (if \<not> VLLM_AVAILABLE env then Inl ImportError else Inr (CompressedTensorsW8A16Fp8 st f))"
| "construct env s = Inr s"

text \<open>
  Calling a scheme class looks its name up in the module first
  (\<open>load_global\<close>), then runs the constructor.
\<close>

definition instantiate :: "Env \<Rightarrow> CompressedTensorsScheme \<Rightarrow> error + CompressedTensorsScheme" where
  "instantiate env s =
     (case load_global env (class_name s) of Inl e \<Rightarrow> Inl e | Inr _ \<Rightarrow> construct env s)"

text \<open>
  \<^verbatim>\<open>input_quant and not input_quant.dynamic\<close>: \<^verbatim>\<open>None\<close> when \<^verbatim>\<open>input_quant\<close> is \<^verbatim>\<open>None\<close>
  (a model object is truthy), else the negated flag.
\<close>

definition static_input_scheme :: "QuantizationArgs option \<Rightarrow> bool option" where
  "static_input_scheme input_quant = map_option (\<lambda>i. \<not> dynamic i) input_quant"

text \<open>
  \<^verbatim>\<open>_get_scheme_from_parts\<close>, first block (\<^verbatim>\<open># Detect If Mixed Precision\<close>), entered when
  \<^verbatim>\<open>_is_wNa16_group_channel\<close> holds. \<open>Inr None\<close> means that neither inner \<^verbatim>\<open>if\<close> returned
  and control falls through to the next block. In
  \<^verbatim>\<open>quant_format == marlin_24 and num_bits in W4A16SPARSE24_SUPPORTED_BITS\<close> the right
  operand is evaluated only when the left one is true.
\<close>

definition get_scheme_from_parts_mixed ::
  "CompressedTensorsConfig \<Rightarrow> Env \<Rightarrow> QuantizationArgs \<Rightarrow>
     error + CompressedTensorsScheme option" where
  "get_scheme_from_parts_mixed self env w =
     (if \<not> VLLM_AVAILABLE env then Inl ImportError
      else
        (case (if quant_format self = marlin_24
               then (case load_global_bits env ''W4A16SPARSE24_SUPPORTED_BITS'' of
                       Inl e \<Rightarrow> Inl e
                     | Inr bits \<Rightarrow> Inr (num_bits w \<in> set bits))
               else Inr False) of
           Inl e \<Rightarrow> Inl e
         | Inr sparse24 \<Rightarrow>
             if sparse24
             then map_sum id Some
                    (instantiate env
                       (CompressedTensorsW4A16Sparse24 (strategy w) (num_bits w) (group_size w)))
             else
               (case (if quant_format self = pack_quantized
                      then (case load_global_bits env ''WNA16_SUPPORTED_BITS'' of
                              Inl e \<Rightarrow> Inl e
                            | Inr bits \<Rightarrow> Inr (num_bits w \<in> set bits))
                      else Inr False) of
                  Inl e \<Rightarrow> Inl e
                | Inr packed \<Rightarrow>
                    if packed
                    then map_sum id Some
                           (instantiate env
                              (CompressedTensorsWNA16 (num_bits w) (strategy w) (group_size w)
                                 (actorder w)))
                    else Inr None)))"

text \<open>
  Second block, the body of \<^verbatim>\<open>if is_activation_quantization_format(self.quant_format)\<close>,
  followed by the final \<^verbatim>\<open>raise NotImplementedError\<close>.
\<close>

definition get_scheme_from_parts_activation ::
  "Env \<Rightarrow> QuantizationArgs \<Rightarrow> QuantizationArgs option \<Rightarrow> error + CompressedTensorsScheme" where
  "get_scheme_from_parts_activation env w input_quant =
     (if is_fp8_w8a8 (Some w) input_quant then
        (case check_scheme_supported env (get_min_capability env ''CompressedTensorsW8A8Fp8'')
                False of
           Inl e \<Rightarrow> Inl e
         | Inr is_fp8_w8a8_supported \<Rightarrow>
             if is_fp8_w8a8_supported
             then instantiate env
                    (CompressedTensorsW8A8Fp8 (strategy w) (static_input_scheme input_quant))
             else (case input_quant of
                     None \<Rightarrow> Inl AttributeError
                   | Some i \<Rightarrow>
                       instantiate env
                         (CompressedTensorsW8A16Fp8 (strategy w) (Some (\<not> dynamic i)))))
      else if is_fp8_w8a16 (Some w) input_quant then
        (if \<not> VLLM_AVAILABLE env then Inl ImportError
         else instantiate env
                (CompressedTensorsW8A16Fp8 (strategy w) (static_input_scheme input_quant)))
      else
        (case is_static_tensor_w8a8 (Some w) input_quant of
           Inl e \<Rightarrow> Inl e
         | Inr static_tensor \<Rightarrow>
             if static_tensor
             then (case load_global env ''CompressedTensorsW8A8Int8'' of
                     Inl e \<Rightarrow> Inl e
                   | Inr _ \<Rightarrow>
                       (case input_quant of
                          None \<Rightarrow> Inl AttributeError
                        | Some i \<Rightarrow>
                            Inr (CompressedTensorsW8A8Int8 (strategy w) (Some True)
                                   (symmetric i))))
             else
               (case is_dynamic_token_w8a8 (Some w) input_quant of
                  Inl e \<Rightarrow> Inl e
                | Inr dynamic_token \<Rightarrow>
                    if dynamic_token
                    then (case load_global env ''CompressedTensorsW8A8Int8'' of
                            Inl e \<Rightarrow> Inl e
                          | Inr _ \<Rightarrow>
                              (case input_quant of
                                 None \<Rightarrow> Inl AttributeError
                               | Some i \<Rightarrow>
                                   Inr (CompressedTensorsW8A8Int8 (strategy w) (Some False)
                                          (symmetric i))))
                    else Inl NotImplementedError)))"

text \<open>\<^verbatim>\<open>_get_scheme_from_parts(self, weight_quant, input_quant)\<close>\<close>

definition get_scheme_from_parts ::
  "CompressedTensorsConfig \<Rightarrow> Env \<Rightarrow> QuantizationArgs option \<Rightarrow> QuantizationArgs option \<Rightarrow>
     error + CompressedTensorsScheme" where
  "get_scheme_from_parts self env weight_quant input_quant =
     (case is_wNa16_group_channel weight_quant input_quant of
        Inl e \<Rightarrow> Inl e
      | Inr mixed \<Rightarrow>
          (case weight_quant of
             None \<Rightarrow> Inl AttributeError
           | Some w \<Rightarrow>
               (case (if mixed then get_scheme_from_parts_mixed self env w else Inr None) of
                  Inl e \<Rightarrow> Inl e
                | Inr (Some s) \<Rightarrow> Inr s
                | Inr None \<Rightarrow>
                    if is_activation_quantization_format env (quant_format self)
                    then get_scheme_from_parts_activation env w input_quant
                    else Inl NotImplementedError)))"

text \<open>\<^verbatim>\<open>supports_cutlass_24(weight_quant, input_quant, sparsity_scheme)\<close>\<close>

definition supports_cutlass_24 ::
  "QuantizationArgs option \<Rightarrow> QuantizationArgs option \<Rightarrow> SparsityCompressionConfig option \<Rightarrow>
     error + bool" where
  "supports_cutlass_24 weight_quant input_quant sparsity_scheme =
     (case sparsity_scheme of
        None \<Rightarrow> Inr False
      | Some ss \<Rightarrow>
          (let is_valid_sparsity_structure = (sparsity_structure ss = TWO_FOUR);
               valid_compressors = {dense, sparse_24_bitmask};
               is_valid_sparsity =
                 (is_valid_sparsity_structure \<and> format ss \<in> valid_compressors)
           in if \<not> is_valid_sparsity then Inr False
              else if weight_quant = None \<and> input_quant = None then Inr True
              else if weight_quant \<noteq> None \<and> input_quant = None then Inr False
              else
                (case weight_quant of
                   None \<Rightarrow> Inl AssertionError
                 | Some w \<Rightarrow>
                     (case input_quant of
                        None \<Rightarrow> Inl AssertionError
                      | Some i \<Rightarrow>
                          if strategy w \<notin> set [TENSOR, CHANNEL] then Inr False
                          else if strategy i \<notin> set [TENSOR, TOKEN] then Inr False
                          else Inr (num_bits w = num_bits i \<and> num_bits i = 8)))))"

section \<open>Scheme selection for a layer\<close>

text \<open>
  \<^verbatim>\<open>logger.warning_once(msg)\<close>. The attribute lookup fails with \<^verbatim>\<open>AttributeError\<close> when the
  logger has no such method. Modelled from the spec: where the method exists it is the
  "one-time warning" of the specification, a message already emitted is not emitted again.
\<close>

definition warning_once :: "Env \<Rightarrow> string \<Rightarrow> LogRecord list \<Rightarrow> error + LogRecord list" where
  "warning_once env msg lg =
     (if \<not> logger_has_warning_once env then Inl AttributeError
      else Inr (if Warning msg \<in> set lg then lg else lg @ [Warning msg]))"

definition fallback_warning :: string where
  "fallback_warning =
     ''Acceleration for non-quantized schemes is not supported by Compressed Tensors. '' @
     ''Falling back to UnquantizedLinearMethod''"

text \<open>
  \<^verbatim>\<open>get_scheme\<close>, first part: the quantization arguments of the matched target. With an
  empty \<^verbatim>\<open>target_scheme_map\<close> both stay \<^verbatim>\<open>None\<close>. An error of \<^verbatim>\<open>find_matched_target\<close>
  propagates; indexing the dictionary with a key it does not hold raises \<^verbatim>\<open>KeyError\<close>.
\<close>

definition get_scheme_quant_args ::
  "CompressedTensorsConfig \<Rightarrow> Env \<Rightarrow> Module \<Rightarrow> string option \<Rightarrow>
     error + (QuantizationArgs option \<times> QuantizationArgs option)" where
  "get_scheme_quant_args self env layer layer_name =
     (if target_scheme_map self \<noteq> [] then
        (case find_matched_target env layer_name layer (map fst (target_scheme_map self))
                (packed_modules_mapping self) of
           Inl e \<Rightarrow> Inl e
         | Inr matched_target \<Rightarrow>
             (case map_of (target_scheme_map self) matched_target of
                None \<Rightarrow> Inl (KeyError matched_target)
              | Some sd \<Rightarrow> Inr (weights sd, input_activations sd)))
      else Inr (None, None))"

text \<open>
  Second part: the sparsity scheme of the layer. The targets are the keys of
  \<^verbatim>\<open>sparsity_scheme_map\<close> minus the ignore list; \<^verbatim>\<open>with suppress(ValueError)\<close> turns a
  \<^verbatim>\<open>ValueError\<close> of the matcher into "no sparsity scheme" and lets every other error through.
\<close>

definition get_scheme_sparsity ::
  "CompressedTensorsConfig \<Rightarrow> Env \<Rightarrow> Module \<Rightarrow> string option \<Rightarrow>
     error + SparsityCompressionConfig option" where
  "get_scheme_sparsity self env layer layer_name =
     (let sparsity_targets =
            filter (\<lambda>t. t \<notin> set (sparsity_ignore_list self))
              (map fst (sparsity_scheme_map self))
      in case find_matched_target env layer_name layer sparsity_targets
                (packed_modules_mapping self) of
           Inl e \<Rightarrow> if e = ValueError then Inr None else Inl e
         | Inr matched_target \<Rightarrow>
             (case map_of (sparsity_scheme_map self) matched_target of
                None \<Rightarrow> Inl (KeyError matched_target)
              | Some ss \<Rightarrow> Inr (Some ss)))"

text \<open>
  Last lines of \<^verbatim>\<open>get_scheme\<close>: the capability gate in its raising mode, the debug
  message, and the return of the scheme.
\<close>

definition get_scheme_gate ::
  "Env \<Rightarrow> CompressedTensorsScheme \<Rightarrow> string option \<Rightarrow> LogRecord list \<Rightarrow>
     (error + CompressedTensorsScheme option) \<times> LogRecord list" where
  "get_scheme_gate env s layer_name lg =
     (case check_scheme_supported env (get_min_capability env (class_name s)) True of
        Inl e \<Rightarrow> (Inl e, lg)
      | Inr _ \<Rightarrow> (Inr (Some s), lg @ [Debug (class_name s) layer_name]))"

text \<open>
  The \<^verbatim>\<open>if supports_cutlass_24(...) / elif weight_quant is None / else\<close> of \<^verbatim>\<open>get_scheme\<close>,
  on the values the two lookups produced. The result comes with the log.
\<close>

definition get_scheme_select ::
  "CompressedTensorsConfig \<Rightarrow> Env \<Rightarrow> QuantizationArgs option \<Rightarrow> QuantizationArgs option \<Rightarrow>
     SparsityCompressionConfig option \<Rightarrow> string option \<Rightarrow> LogRecord list \<Rightarrow>
     (error + CompressedTensorsScheme option) \<times> LogRecord list" where
  "get_scheme_select self env weight_quant input_quant sparsity_scheme layer_name lg =
     (case supports_cutlass_24 weight_quant input_quant sparsity_scheme of
        Inl e \<Rightarrow> (Inl e, lg)
      | Inr cutlass \<Rightarrow>
          if cutlass then
            (if \<not> VLLM_AVAILABLE env then (Inl ImportError, lg)
             else
               (let model_compression_config =
                      (case sparsity_scheme of
                         None \<Rightarrow> None
                       | Some ss \<Rightarrow> if format ss = dense then None else config self)
                in case instantiate env
                          (CompressedTensors24 (weight_quant \<noteq> None \<or> input_quant \<noteq> None)
                             weight_quant input_quant model_compression_config) of
                     Inl e \<Rightarrow> (Inl e, lg)
                   | Inr s \<Rightarrow> get_scheme_gate env s layer_name lg))
          else if weight_quant = None then
            (case warning_once env fallback_warning lg of
               Inl e \<Rightarrow> (Inl e, lg)
             | Inr lg' \<Rightarrow> (Inr None, lg'))
          else
            (case get_scheme_from_parts self env weight_quant input_quant of
               Inl e \<Rightarrow> (Inl e, lg)
             | Inr s \<Rightarrow> get_scheme_gate env s layer_name lg))"

text \<open>\<^verbatim>\<open>get_scheme(self, layer, layer_name)\<close>\<close>

definition get_scheme ::
  "CompressedTensorsConfig \<Rightarrow> Env \<Rightarrow> Module \<Rightarrow> string option \<Rightarrow> LogRecord list \<Rightarrow>
     (error + CompressedTensorsScheme option) \<times> LogRecord list" where
  "get_scheme self env layer layer_name lg =
     (case get_scheme_quant_args self env layer layer_name of
        Inl e \<Rightarrow> (Inl e, lg)
      | Inr (weight_quant, input_quant) \<Rightarrow>
          (case get_scheme_sparsity self env layer layer_name of
             Inl e \<Rightarrow> (Inl e, lg)
           | Inr sparsity_scheme \<Rightarrow>
               get_scheme_select self env weight_quant input_quant sparsity_scheme
                 layer_name lg))"

text \<open>
  \<^verbatim>\<open>get_quant_method(self, layer, prefix)\<close>. The result is the returned method (\<^verbatim>\<open>None\<close> for a
  layer that is neither linear nor mixture-of-experts), the layer, whose \<^verbatim>\<open>scheme\<close> attribute
  is set when a scheme was selected, and the log.
\<close>

definition get_quant_method ::
  "CompressedTensorsConfig \<Rightarrow> Env \<Rightarrow> Module \<Rightarrow> string \<Rightarrow> LogRecord list \<Rightarrow>
     (error + QuantizeMethodBase option) \<times> Module \<times> LogRecord list" where
  "get_quant_method self env layer prefix lg =
     (if should_ignore_layer env prefix (ignore self) (packed_modules_mapping self)
      then (Inr (Some UnquantizedLinearMethod), layer, lg)
      else if module_class layer = LinearBase then
        (case get_scheme self env layer (Some prefix) lg of
           (Inl e, lg') \<Rightarrow> (Inl e, layer, lg')
         | (Inr None, lg') \<Rightarrow> (Inr (Some UnquantizedLinearMethod), layer, lg')
         | (Inr (Some s), lg') \<Rightarrow>
             (Inr (Some (CompressedTensorsLinearMethod self)),
              layer\<lparr>scheme := Some s\<rparr>, lg'))
      else if module_class layer = FusedMoE then
        (case get_moe_method env of
           Inl e \<Rightarrow> (Inl e, layer, lg)
         | Inr m \<Rightarrow> (Inr (Some m), layer, lg))
      else (Inr None, layer, lg))"

section \<open>Cache scale names\<close>

text \<open>
  The string methods \<^verbatim>\<open>get_cache_scale\<close> uses: \<^verbatim>\<open>s.startswith(p)\<close>, \<^verbatim>\<open>s.endswith(p)\<close>,
  \<^verbatim>\<open>sub in s\<close> and \<^verbatim>\<open>s.replace(old, new)\<close>, which replaces every occurrence of \<^verbatim>\<open>old\<close>,
  scanning from the left and continuing after each replaced occurrence; for an empty
  \<^verbatim>\<open>old\<close> it puts \<^verbatim>\<open>new\<close> before every character and at the end.
\<close>

fun startswith :: "string \<Rightarrow> string \<Rightarrow> bool" where
  "startswith s [] = True"
| "startswith [] (p # ps) = False"
| "startswith (c # cs) (p # ps) = (c = p \<and> startswith cs ps)"

definition endswith :: "string \<Rightarrow> string \<Rightarrow> bool" where
  "endswith s suffix = startswith (rev s) (rev suffix)"

fun contains :: "string \<Rightarrow> string \<Rightarrow> bool" where
  "contains [] sub = (sub = [])"
| "contains (c # cs) sub = (startswith (c # cs) sub \<or> contains cs sub)"

function replace :: "string \<Rightarrow> string \<Rightarrow> string \<Rightarrow> string" where
  "replace s old new =
     (if old = [] then concat (map (\<lambda>c. new @ [c]) s) @ new
      else if s = [] then []
      else if startswith s old then new @ replace (drop (length old) s) old new
      else hd s # replace (tl s) old new)"
  by pat_completeness auto
termination
  by (relation "measure (\<lambda>(s, old, new). length s)") auto

text \<open>\<^verbatim>\<open>get_cache_scale(self, name)\<close>\<close>

definition get_cache_scale :: "string \<Rightarrow> string option" where
  "get_cache_scale name =
     (if endswith name ''.output_scale'' \<and> contains name ''.k_proj''
      then Some (replace name ''.k_proj.output_scale'' ''.attn.k_scale'')
      else if endswith name ''.output_scale'' \<and> contains name ''.v_proj''
      then Some (replace name ''.v_proj.output_scale'' ''.attn.v_scale'')
      else None)"

section \<open>Example inputs\<close>

text \<open>
  Concrete values at which the functions are evaluated below. \<open>example_env\<close> fixes the
  surroundings: the device capability and the availability of vllm are its arguments,
  the activation-quantizing formats are the naive, integer and float quantized ones,
  the FP8 weight-and-activation scheme asks for capability 89 and every other scheme
  for 80, the matcher accepts a target equal to the layer name, and a layer is ignored
  when its name is in the ignore list.
\<close>

definition example_env :: "int \<times> int \<Rightarrow> bool \<Rightarrow> Env" where
  "example_env capability vllm =
     \<lparr> VLLM_AVAILABLE = vllm,
       WNA16_SUPPORTED_BITS = [4, 8],
       get_device_capability = capability,
       is_activation_quantization_format =
         (\<lambda>f. f = naive_quantized \<or> f = int_quantized \<or> f = float_quantized),
       get_min_capability = (\<lambda>c. if c = ''CompressedTensorsW8A8Fp8'' then 89 else 80),
       find_matched_target =
         (\<lambda>layer_name module targets fused_mapping.
            case layer_name of
              None \<Rightarrow> Inl ValueError
            | Some n \<Rightarrow> if n \<in> set targets then Inr n else Inl ValueError),
       should_ignore_layer = (\<lambda>prefix ignore fused_mapping. prefix \<in> set ignore),
       logger_has_warning_once = True,
       get_moe_method = Inr CompressedTensorsMoEMethod \<rparr>"

definition example_config ::
  "CompressionFormat \<Rightarrow> (string \<times> scheme_dict) list \<Rightarrow>
     (string \<times> SparsityCompressionConfig) list \<Rightarrow> CompressedTensorsConfig" where
  "example_config fmt targets sparsity =
     \<lparr> ignore = [], quant_format = fmt, target_scheme_map = targets,
       sparsity_scheme_map = sparsity, sparsity_ignore_list = [], config = None,
       packed_modules_mapping = [] \<rparr>"

definition linear_layer :: Module where
  "linear_layer = \<lparr> module_class = LinearBase, scheme = None \<rparr>"

text \<open>8-bit float, per tensor, symmetric, static.\<close>

definition fp8_static :: QuantizationArgs where
  "fp8_static = \<lparr> num_bits = 8, qtype = FLOAT, strategy = TENSOR, symmetric = True,
                  dynamic = False, group_size = None, actorder = None \<rparr>"

text \<open>8-bit integer, per tensor, symmetric, static.\<close>

definition int8_static :: QuantizationArgs where
  "int8_static = \<lparr> num_bits = 8, qtype = INT_TYPE, strategy = TENSOR, symmetric = True,
                   dynamic = False, group_size = None, actorder = None \<rparr>"

text \<open>8-bit integer, per token, symmetric, dynamic.\<close>

definition int8_dynamic_token :: QuantizationArgs where
  "int8_dynamic_token = \<lparr> num_bits = 8, qtype = INT_TYPE, strategy = TOKEN, symmetric = True,
                          dynamic = True, group_size = None, actorder = None \<rparr>"

text \<open>Integer weights in groups of 128, symmetric, static, of the given width.\<close>

definition int_group :: "int \<Rightarrow> QuantizationArgs" where
  "int_group bits = \<lparr> num_bits = bits, qtype = INT_TYPE, strategy = GROUP, symmetric = True,
                      dynamic = False, group_size = Some 128, actorder = None \<rparr>"

definition sparse_24_dense :: SparsityCompressionConfig where
  "sparse_24_dense = \<lparr> format = dense, sparsity_structure = TWO_FOUR \<rparr>"

declare replace.simps [simp del]

section \<open>Name lookups\<close>

text \<open>
  The module binds \<^verbatim>\<open>CompressedTensorsW8A8Fp8\<close> and \<^verbatim>\<open>CompressedTensorsW8A16Fp8\<close> always, and
  \<^verbatim>\<open>CompressedTensorsWNA16\<close> and \<^verbatim>\<open>WNA16_SUPPORTED_BITS\<close> when vllm is there. It binds none of
  \<^verbatim>\<open>CompressedTensors24\<close>, \<^verbatim>\<open>CompressedTensorsW8A8Int8\<close>, \<^verbatim>\<open>CompressedTensorsW4A16Sparse24\<close>
  and \<^verbatim>\<open>W4A16SPARSE24_SUPPORTED_BITS\<close>.
\<close>

lemma load_global_CompressedTensors24:
  "load_global env ''CompressedTensors24'' = Inl (NameError ''CompressedTensors24'')"
  by (simp add: load_global_def module_globals_def)

lemma load_global_W8A8Int8:
  "load_global env ''CompressedTensorsW8A8Int8'' = Inl (NameError ''CompressedTensorsW8A8Int8'')"
  by (simp add: load_global_def module_globals_def)

lemma load_global_W4A16Sparse24:
  "load_global env ''CompressedTensorsW4A16Sparse24''
     = Inl (NameError ''CompressedTensorsW4A16Sparse24'')"
  by (simp add: load_global_def module_globals_def)

lemma load_global_W8A8Fp8:
  "load_global env ''CompressedTensorsW8A8Fp8'' = Inr ()"
  by (simp add: load_global_def module_globals_def)

lemma load_global_W8A16Fp8:
  "load_global env ''CompressedTensorsW8A16Fp8'' = Inr ()"
  by (simp add: load_global_def module_globals_def)

lemma load_global_WNA16:
  "load_global env ''CompressedTensorsWNA16''
     = (if VLLM_AVAILABLE env then Inr () else Inl (NameError ''CompressedTensorsWNA16''))"
  by (simp add: load_global_def module_globals_def)

lemma load_global_bits_WNA16:
  "load_global_bits env ''WNA16_SUPPORTED_BITS''
     = (if VLLM_AVAILABLE env then Inr (WNA16_SUPPORTED_BITS env)
        else Inl (NameError ''WNA16_SUPPORTED_BITS''))"
  by (simp add: load_global_bits_def load_global_def module_globals_def)

lemma load_global_bits_W4A16:
  "load_global_bits env ''W4A16SPARSE24_SUPPORTED_BITS''
     = Inl (NameError ''W4A16SPARSE24_SUPPORTED_BITS'')"
  by (simp add: load_global_bits_def load_global_def module_globals_def)

lemma instantiate_W8A8Fp8:
  "instantiate env (CompressedTensorsW8A8Fp8 st f) = Inr (CompressedTensorsW8A8Fp8 st f)"
  by (simp add: instantiate_def load_global_W8A8Fp8)

lemma instantiate_W8A16Fp8:
  "instantiate env (CompressedTensorsW8A16Fp8 st f)
     = (if VLLM_AVAILABLE env then Inr (CompressedTensorsW8A16Fp8 st f) else Inl ImportError)"
  by (simp add: instantiate_def load_global_W8A16Fp8)

lemma instantiate_WNA16:
  "VLLM_AVAILABLE env \<Longrightarrow>
   instantiate env (CompressedTensorsWNA16 b st g a) = Inr (CompressedTensorsWNA16 b st g a)"
  by (simp add: instantiate_def load_global_WNA16)

lemma instantiate_24:
  "instantiate env (CompressedTensors24 q w i c) = Inl (NameError ''CompressedTensors24'')"
  by (simp add: instantiate_def load_global_CompressedTensors24)

section \<open>Capability gate\<close>

lemma check_scheme_supported_eq:
  "check_scheme_supported env m err =
     (if 0 \<le> snd (get_device_capability env) \<and> snd (get_device_capability env) < 10
      then (if err \<and> fst (get_device_capability env) * 10 + snd (get_device_capability env) < m
            then Inl (RuntimeError m
                   (fst (get_device_capability env) * 10 + snd (get_device_capability env)))
            else Inr (m \<le> fst (get_device_capability env) * 10
                             + snd (get_device_capability env)))
      else Inl AssertionError)"
  by (auto simp: check_scheme_supported_def to_int_def Let_def)




section \<open>The predicates\<close>

lemma supports_cutlass_24_True_iff:
  "(supports_cutlass_24 w i s = Inr True) =
     ((\<exists>ss. s = Some ss \<and> sparsity_structure ss = TWO_FOUR \<and>
            (format ss = dense \<or> format ss = sparse_24_bitmask)) \<and>
      ((w = None \<and> i = None) \<or>
       (\<exists>wq iq. w = Some wq \<and> i = Some iq \<and> num_bits wq = 8 \<and> num_bits iq = 8 \<and>
           (strategy wq = TENSOR \<or> strategy wq = CHANNEL) \<and>
           (strategy iq = TENSOR \<or> strategy iq = TOKEN))))"
  by (auto simp: supports_cutlass_24_def Let_def split: option.splits)

lemma supports_cutlass_24_weight_only:
  "supports_cutlass_24 (Some wq) None s = Inr False"
  by (simp add: supports_cutlass_24_def Let_def split: option.splits)

lemma is_fp8_w8a8_iff:
  "is_fp8_w8a8 w i =
     (\<exists>wq iq. w = Some wq \<and> i = Some iq \<and> qtype wq = FLOAT \<and> qtype iq = FLOAT \<and>
        symmetric wq \<and> \<not> dynamic wq \<and> (strategy wq = TENSOR \<or> strategy wq = CHANNEL) \<and>
        (dynamic iq \<or> (symmetric iq \<and> strategy iq = TENSOR)))"
  by (auto simp: is_fp8_w8a8_def Let_def split: option.splits)

lemma is_dynamic_token_w8a8_iff:
  "(is_dynamic_token_w8a8 w i = Inr True) =
     (\<exists>wq iq. w = Some wq \<and> i = Some iq \<and> num_bits wq = 8 \<and> num_bits iq = 8 \<and>
        (strategy wq = TENSOR \<or> strategy wq = CHANNEL) \<and> strategy iq = TOKEN \<and>
        symmetric wq \<and> \<not> dynamic wq \<and> dynamic iq)"
  by (auto simp: is_dynamic_token_w8a8_def Let_def split: option.splits)

lemma is_static_tensor_excluded:
  "is_dynamic_token_w8a8 (Some wq) (Some iq) = Inr True \<Longrightarrow>
   is_static_tensor_w8a8 (Some wq) (Some iq) = Inr False"
  by (auto simp: is_dynamic_token_w8a8_def is_static_tensor_w8a8_def Let_def)

lemma is_wNa16_input_present:
  "is_wNa16_group_channel (Some wq) (Some iq) = Inr False"
  by (simp add: is_wNa16_group_channel_def Let_def)

lemma is_wNa16_group:
  "strategy wq = GROUP \<Longrightarrow> symmetric wq \<Longrightarrow> \<not> dynamic wq \<Longrightarrow>
   is_wNa16_group_channel (Some wq) None = Inr True"
  by (simp add: is_wNa16_group_channel_def Let_def)

section \<open>The classifier on each shape\<close>

lemma parts_fp8_supported:
  assumes "is_fp8_w8a8 (Some wq) (Some iq)"
    and "is_activation_quantization_format env (quant_format self)"
    and "0 \<le> snd (get_device_capability env)" and "snd (get_device_capability env) < 10"
    and "get_min_capability env ''CompressedTensorsW8A8Fp8''
           \<le> fst (get_device_capability env) * 10 + snd (get_device_capability env)"
  shows "get_scheme_from_parts self env (Some wq) (Some iq)
           = Inr (CompressedTensorsW8A8Fp8 (strategy wq) (Some (\<not> dynamic iq)))"
  using assms
  by (simp add: get_scheme_from_parts_def is_wNa16_input_present
        get_scheme_from_parts_activation_def check_scheme_supported_eq
        instantiate_W8A8Fp8 static_input_scheme_def)

lemma parts_fp8_unsupported:
  assumes "is_fp8_w8a8 (Some wq) (Some iq)"
    and "is_activation_quantization_format env (quant_format self)"
    and "VLLM_AVAILABLE env"
    and "0 \<le> snd (get_device_capability env)" and "snd (get_device_capability env) < 10"
    and "fst (get_device_capability env) * 10 + snd (get_device_capability env)
           < get_min_capability env ''CompressedTensorsW8A8Fp8''"
  shows "get_scheme_from_parts self env (Some wq) (Some iq)
           = Inr (CompressedTensorsW8A16Fp8 (strategy wq) (Some (\<not> dynamic iq)))"
  using assms
  by (simp add: get_scheme_from_parts_def is_wNa16_input_present
        get_scheme_from_parts_activation_def check_scheme_supported_eq
        instantiate_W8A16Fp8 static_input_scheme_def)

text \<open>Without vllm the substituted scheme cannot be built.\<close>

lemma parts_fp8_unsupported_no_vllm:
  assumes "is_fp8_w8a8 (Some wq) (Some iq)"
    and "is_activation_quantization_format env (quant_format self)"
    and "\<not> VLLM_AVAILABLE env"
    and "0 \<le> snd (get_device_capability env)" and "snd (get_device_capability env) < 10"
    and "fst (get_device_capability env) * 10 + snd (get_device_capability env)
           < get_min_capability env ''CompressedTensorsW8A8Fp8''"
  shows "get_scheme_from_parts self env (Some wq) (Some iq) = Inl ImportError"
  using assms
  by (simp add: get_scheme_from_parts_def is_wNa16_input_present
        get_scheme_from_parts_activation_def check_scheme_supported_eq
        instantiate_W8A16Fp8 static_input_scheme_def)

text \<open>Outside the activation-quantizing formats no pair with input arguments is classified.\<close>

lemma parts_not_activation_format:
  assumes "\<not> is_activation_quantization_format env (quant_format self)"
  shows "get_scheme_from_parts self env (Some wq) (Some iq) = Inl NotImplementedError"
  using assms
  by (simp add: get_scheme_from_parts_def is_wNa16_input_present)

text \<open>
  The dynamic per-token branch is reached when the two FP8 predicates fail; its
  constructor call stops at the name \<^verbatim>\<open>CompressedTensorsW8A8Int8\<close>.
\<close>

lemma parts_dynamic_token:
  assumes "is_dynamic_token_w8a8 (Some wq) (Some iq) = Inr True"
    and "is_activation_quantization_format env (quant_format self)"
    and "\<not> is_fp8_w8a8 (Some wq) (Some iq)" and "\<not> is_fp8_w8a16 (Some wq) (Some iq)"
  shows "get_scheme_from_parts self env (Some wq) (Some iq)
           = Inl (NameError ''CompressedTensorsW8A8Int8'')"
  using assms
  by (simp add: get_scheme_from_parts_def is_wNa16_input_present
        get_scheme_from_parts_activation_def is_static_tensor_excluded load_global_W8A8Int8)

lemma parts_wNa16:
  assumes "strategy wq = GROUP" "symmetric wq" "\<not> dynamic wq"
    and "VLLM_AVAILABLE env" and "quant_format self = pack_quantized"
    and "num_bits wq \<in> set (WNA16_SUPPORTED_BITS env)"
  shows "get_scheme_from_parts self env (Some wq) None
           = Inr (CompressedTensorsWNA16 (num_bits wq) GROUP (group_size wq) (actorder wq))"
  using assms
  by (simp add: get_scheme_from_parts_def is_wNa16_group get_scheme_from_parts_mixed_def
        load_global_bits_WNA16 instantiate_WNA16)

text \<open>
  Whenever the 2:4 check returns \<^verbatim>\<open>True\<close>, \<^verbatim>\<open>get_scheme\<close> stops before it has a scheme: at the
  \<^verbatim>\<open>ImportError\<close> of the vllm guard, or at the name \<^verbatim>\<open>CompressedTensors24\<close>.
\<close>

lemma get_scheme_select_cutlass:
  "supports_cutlass_24 w i ss = Inr True \<Longrightarrow>
   get_scheme_select self env w i ss nm lg
     = (Inl (if VLLM_AVAILABLE env then NameError ''CompressedTensors24'' else ImportError), lg)"
  by (simp add: get_scheme_select_def instantiate_24 Let_def)

text \<open>
  Without weight arguments and without 2:4 eligibility, \<^verbatim>\<open>get_scheme\<close> returns \<^verbatim>\<open>None\<close> after
  the warning, provided the logger has \<^verbatim>\<open>warning_once\<close>; \<^verbatim>\<open>get_quant_method\<close> then returns
  the unquantized method and leaves the layer as it is.
\<close>

lemma get_scheme_select_unquantized:
  "supports_cutlass_24 None i ss = Inr False \<Longrightarrow> logger_has_warning_once env \<Longrightarrow>
   get_scheme_select self env None i ss nm lg
     = (Inr None,
        if Warning fallback_warning \<in> set lg then lg else lg @ [Warning fallback_warning])"
  by (simp add: get_scheme_select_def warning_once_def)

lemma get_quant_method_unquantized:
  "\<not> should_ignore_layer env prefix (ignore self) (packed_modules_mapping self) \<Longrightarrow>
   module_class layer = LinearBase \<Longrightarrow>
   get_scheme self env layer (Some prefix) lg = (Inr None, lg') \<Longrightarrow>
   get_quant_method self env layer prefix lg = (Inr (Some UnquantizedLinearMethod), layer, lg')"
  by (simp add: get_quant_method_def)

section \<open>String rewriting\<close>

lemma startswith_append_self: "startswith (xs @ ys) xs"
  by (induction xs) auto

lemma startswith_long:
  "length old \<le> length s \<Longrightarrow> startswith (s @ t) old = startswith s old"
  by (induction s old rule: startswith.induct) auto

lemma startswith_Nil: "startswith [] sub = (sub = [])"
  by (cases sub) auto

lemma contains_startswith: "startswith s sub \<Longrightarrow> contains s sub"
  by (cases s) (auto simp: startswith_Nil)

lemma contains_append: "startswith s sub \<Longrightarrow> contains (p @ s) sub"
  by (induction p) (auto simp: contains_startswith)

lemma endswith_append: "endswith (p @ a @ b) b"
  by (simp add: endswith_def startswith_append_self)

lemma replace_Nil: "old \<noteq> [] \<Longrightarrow> replace [] old new = []"
  by (simp add: replace.simps)

text \<open>
  When \<open>old\<close> occurs at the end of a string and at no earlier position, \<open>replace\<close> rewrites
  that one occurrence. An earlier occurrence would lie inside \<open>p @ butlast old\<close>.
\<close>

lemma replace_last_occurrence:
  "old \<noteq> [] \<Longrightarrow> \<not> contains (p @ butlast old) old \<Longrightarrow>
   replace (p @ old) old new = p @ new"
proof (induction p)
  case Nil
  then show ?case
    using startswith_append_self [of old "[]"]
    by (simp add: replace.simps [of old old new] replace_Nil)
next
  case (Cons c p)
  have len: "length old \<le> length (c # p @ butlast old)"
    by simp
  have "startswith ((c # p @ butlast old) @ [last old]) old
          = startswith (c # p @ butlast old) old"
    using startswith_long [OF len] by blast
  moreover have "(c # p @ butlast old) @ [last old] = c # p @ old"
    using Cons.prems(1) by simp
  ultimately have ns: "\<not> startswith (c # p @ old) old"
    using Cons.prems(2) by simp
  have "\<not> contains (p @ butlast old) old"
    using Cons.prems(2) by simp
  then have ih: "replace (p @ old) old new = p @ new"
    using Cons.IH Cons.prems(1) by blast
  show ?case
    using ns ih Cons.prems(1) by (simp add: replace.simps [of "c # p @ old" old new])
qed

lemma get_cache_scale_k_proj:
  assumes "\<not> contains (p @ ''.k_proj.output_scal'') ''.k_proj.output_scale''"
  shows "get_cache_scale (p @ ''.k_proj.output_scale'') = Some (p @ ''.attn.k_scale'')"
proof -
  have e: "endswith (p @ ''.k_proj'' @ ''.output_scale'') ''.output_scale''"
    by (rule endswith_append)
  have c: "contains (p @ ''.k_proj.output_scale'') ''.k_proj''"
    by (rule contains_append) simp
  have r: "replace (p @ ''.k_proj.output_scale'') ''.k_proj.output_scale'' ''.attn.k_scale''
             = p @ ''.attn.k_scale''"
    using replace_last_occurrence [of "''.k_proj.output_scale''" p "''.attn.k_scale''"] assms
    by simp
  from e c r show ?thesis
    by (simp add: get_cache_scale_def)
qed

text \<open>
  The test for the k-projection comes first: a name that ends in the v-projection marker
  but also holds \<^verbatim>\<open>.k_proj\<close> somewhere takes the first branch.
\<close>

lemma get_cache_scale_v_proj:
  assumes "\<not> contains (p @ ''.v_proj.output_scal'') ''.v_proj.output_scale''"
    and "\<not> contains (p @ ''.v_proj.output_scale'') ''.k_proj''"
  shows "get_cache_scale (p @ ''.v_proj.output_scale'') = Some (p @ ''.attn.v_scale'')"
proof -
  have e: "endswith (p @ ''.v_proj'' @ ''.output_scale'') ''.output_scale''"
    by (rule endswith_append)
  have c: "contains (p @ ''.v_proj.output_scale'') ''.v_proj''"
    by (rule contains_append) simp
  have r: "replace (p @ ''.v_proj.output_scale'') ''.v_proj.output_scale'' ''.attn.v_scale''
             = p @ ''.attn.v_scale''"
    using replace_last_occurrence [of "''.v_proj.output_scale''" p "''.attn.v_scale''"] assms(1)
    by simp
  from e c r assms(2) show ?thesis
    by (simp add: get_cache_scale_def)
qed

lemmas example_defs = example_config_def example_env_def linear_layer_def fp8_static_def
  int8_static_def int8_dynamic_token_def int_group_def sparse_24_dense_def

section \<open>Claims\<close>

text \<open>
  Claim C1. \<open>supports_cutlass_24\<close> returns \<^verbatim>\<open>True\<close> on a 2:4 dense sparsity scheme both for
  an unquantized layer and for a layer with 8-bit per-tensor quantization on both sides.
  On both layers \<^verbatim>\<open>get_scheme\<close>, with vllm available, does not build the 2:4-sparse scheme:
  the call \<^verbatim>\<open>CompressedTensors24(...)\<close> raises \<^verbatim>\<open>NameError\<close>, the module never having
  imported that name.
\<close>

theorem get_scheme_cutlass_24_name_error:
  "supports_cutlass_24 None None (Some sparse_24_dense) = Inr True
   \<and> fst (get_scheme (example_config dense [] [(''fc'', sparse_24_dense)])
            (example_env (9, 0) True) linear_layer (Some ''fc'') [])
       = Inl (NameError ''CompressedTensors24'')
   \<and> supports_cutlass_24 (Some int8_static) (Some int8_static) (Some sparse_24_dense) = Inr True
   \<and> fst (get_scheme
            (example_config int_quantized
               [(''fc'', \<lparr>weights = Some int8_static, input_activations = Some int8_static\<rparr>)]
               [(''fc'', sparse_24_dense)])
            (example_env (9, 0) True) linear_layer (Some ''fc'') [])
       = Inl (NameError ''CompressedTensors24'')"
  by (simp add: get_scheme_def get_scheme_quant_args_def get_scheme_sparsity_def
        get_scheme_select_def supports_cutlass_24_def instantiate_24 example_defs)

text \<open>
  Claim C2, as stated, fails: a pair on which \<open>is_fp8_w8a8\<close> holds is given the FP8
  weight-only scheme on a device of capability 80, and no scheme at all under a format
  that is not activation-quantizing.
\<close>

theorem fp8_w8a8_selection_counterexample:
  "is_fp8_w8a8 (Some fp8_static) (Some fp8_static)
   \<and> get_scheme_from_parts (example_config float_quantized [] []) (example_env (8, 0) True)
       (Some fp8_static) (Some fp8_static)
       = Inr (CompressedTensorsW8A16Fp8 TENSOR (Some True))
   \<and> get_scheme_from_parts (example_config pack_quantized [] []) (example_env (8, 9) True)
       (Some fp8_static) (Some fp8_static)
       = Inl NotImplementedError"
  by (simp add: get_scheme_from_parts_def is_wNa16_input_present
        get_scheme_from_parts_activation_def check_scheme_supported_eq
        instantiate_W8A16Fp8 static_input_scheme_def is_fp8_w8a8_def example_defs)

text \<open>
  Claim C2, amended. \<open>is_fp8_w8a8\<close> holds exactly when both arguments are present and
  float-typed, the weight is symmetric, static and per tensor or per channel, and the
  input is dynamic or else symmetric and per tensor. For such a pair, under an
  activation-quantizing format and on a device whose capability reaches the minimum of
  the FP8 weight-and-activation scheme, \<open>get_scheme_from_parts\<close> returns that scheme with
  the weight strategy and with the static-input flag set iff the input is not dynamic.
\<close>

theorem fp8_w8a8_selection:
  "is_fp8_w8a8 w i =
     (\<exists>wq iq. w = Some wq \<and> i = Some iq \<and> qtype wq = FLOAT \<and> qtype iq = FLOAT \<and>
        symmetric wq \<and> \<not> dynamic wq \<and> (strategy wq = TENSOR \<or> strategy wq = CHANNEL) \<and>
        (dynamic iq \<or> (symmetric iq \<and> strategy iq = TENSOR)))
   \<and> (is_fp8_w8a8 (Some wq') (Some iq') \<and>
       is_activation_quantization_format env (quant_format self) \<and>
       0 \<le> snd (get_device_capability env) \<and> snd (get_device_capability env) < 10 \<and>
       get_min_capability env ''CompressedTensorsW8A8Fp8''
         \<le> fst (get_device_capability env) * 10 + snd (get_device_capability env)
       \<longrightarrow> get_scheme_from_parts self env (Some wq') (Some iq')
             = Inr (CompressedTensorsW8A8Fp8 (strategy wq') (Some (\<not> dynamic iq'))))"
  using is_fp8_w8a8_iff [of w i] parts_fp8_supported [of wq' iq' env self] by blast

theorem fp8_w8a8_selection_witness:
  "(is_fp8_w8a8 (Some fp8_static) (Some fp8_static) \<and>
    is_activation_quantization_format (example_env (8, 9) True)
      (quant_format (example_config float_quantized [] [])) \<and>
    0 \<le> snd (get_device_capability (example_env (8, 9) True)) \<and>
    snd (get_device_capability (example_env (8, 9) True)) < 10 \<and>
    get_min_capability (example_env (8, 9) True) ''CompressedTensorsW8A8Fp8''
      \<le> fst (get_device_capability (example_env (8, 9) True)) * 10
         + snd (get_device_capability (example_env (8, 9) True)))
   \<and> get_scheme_from_parts (example_config float_quantized [] []) (example_env (8, 9) True)
       (Some fp8_static) (Some fp8_static)
       = Inr (CompressedTensorsW8A8Fp8 (strategy fp8_static) (Some (\<not> dynamic fp8_static)))"
  (is "?H \<and> ?C")
proof
  show h: ?H
    by (simp add: is_fp8_w8a8_def example_defs)
  from fp8_w8a8_selection [THEN conjunct2, rule_format, OF h] show ?C .
qed

text \<open>
  Claim C3, as stated, fails. On a device below the FP8 minimum, a pair on which
  \<open>is_fp8_w8a8\<close> holds gets \<^verbatim>\<open>NotImplementedError\<close> under a format that is not
  activation-quantizing, and \<^verbatim>\<open>ImportError\<close> from the constructor of the FP8 weight-only
  scheme when vllm is not installed.
\<close>

theorem fp8_fallback_counterexample:
  "is_fp8_w8a8 (Some fp8_static) (Some fp8_static)
   \<and> fst (get_device_capability (example_env (8, 0) True)) * 10
       + snd (get_device_capability (example_env (8, 0) True))
       < get_min_capability (example_env (8, 0) True) ''CompressedTensorsW8A8Fp8''
   \<and> get_scheme_from_parts (example_config pack_quantized [] []) (example_env (8, 0) True)
       (Some fp8_static) (Some fp8_static)
       = Inl NotImplementedError
   \<and> fst (get_device_capability (example_env (8, 0) False)) * 10
       + snd (get_device_capability (example_env (8, 0) False))
       < get_min_capability (example_env (8, 0) False) ''CompressedTensorsW8A8Fp8''
   \<and> get_scheme_from_parts (example_config float_quantized [] []) (example_env (8, 0) False)
       (Some fp8_static) (Some fp8_static)
       = Inl ImportError"
  by (simp add: get_scheme_from_parts_def is_wNa16_input_present
        get_scheme_from_parts_activation_def check_scheme_supported_eq
        instantiate_W8A16Fp8 static_input_scheme_def is_fp8_w8a8_def example_defs)

text \<open>
  Claim C3, amended. For a pair on which \<open>is_fp8_w8a8\<close> holds, under an
  activation-quantizing format, with vllm installed, and on a device whose capability
  integer is below the minimum of the FP8 weight-and-activation scheme,
  \<open>get_scheme_from_parts\<close> returns the FP8 weight-only scheme
  \<^verbatim>\<open>CompressedTensorsW8A16Fp8\<close> and raises nothing.
\<close>

theorem fp8_fallback:
  "is_fp8_w8a8 (Some wq) (Some iq) \<and>
   is_activation_quantization_format env (quant_format self) \<and>
   VLLM_AVAILABLE env \<and>
   0 \<le> snd (get_device_capability env) \<and> snd (get_device_capability env) < 10 \<and>
   fst (get_device_capability env) * 10 + snd (get_device_capability env)
     < get_min_capability env ''CompressedTensorsW8A8Fp8''
   \<longrightarrow> get_scheme_from_parts self env (Some wq) (Some iq)
         = Inr (CompressedTensorsW8A16Fp8 (strategy wq) (Some (\<not> dynamic iq)))"
  using parts_fp8_unsupported [of wq iq env self] by blast

theorem fp8_fallback_witness:
  "(is_fp8_w8a8 (Some fp8_static) (Some fp8_static) \<and>
    is_activation_quantization_format (example_env (8, 0) True)
      (quant_format (example_config float_quantized [] [])) \<and>
    VLLM_AVAILABLE (example_env (8, 0) True) \<and>
    0 \<le> snd (get_device_capability (example_env (8, 0) True)) \<and>
    snd (get_device_capability (example_env (8, 0) True)) < 10 \<and>
    fst (get_device_capability (example_env (8, 0) True)) * 10
      + snd (get_device_capability (example_env (8, 0) True))
      < get_min_capability (example_env (8, 0) True) ''CompressedTensorsW8A8Fp8'')
   \<and> get_scheme_from_parts (example_config float_quantized [] []) (example_env (8, 0) True)
       (Some fp8_static) (Some fp8_static)
       = Inr (CompressedTensorsW8A16Fp8 (strategy fp8_static) (Some (\<not> dynamic fp8_static)))"
  (is "?H \<and> ?C")
proof
  show h: ?H
    by (simp add: is_fp8_w8a8_def example_defs)
  from fp8_fallback [rule_format, OF h] show ?C .
qed

text \<open>
  Claim C4, as stated, fails: a layer whose target has FP8 weight arguments, no input
  arguments and a 2:4 dense sparsity scheme is given the FP8 weight-only scheme;
  \<^verbatim>\<open>get_scheme\<close> raises nothing.
\<close>

theorem weight_only_sparse_counterexample:
  "get_scheme_quant_args
       (example_config float_quantized
          [(''fc'', \<lparr>weights = Some fp8_static, input_activations = None\<rparr>)]
          [(''fc'', sparse_24_dense)])
       (example_env (8, 0) True) linear_layer (Some ''fc'')
     = Inr (Some fp8_static, None)
   \<and> get_scheme_sparsity
       (example_config float_quantized
          [(''fc'', \<lparr>weights = Some fp8_static, input_activations = None\<rparr>)]
          [(''fc'', sparse_24_dense)])
       (example_env (8, 0) True) linear_layer (Some ''fc'')
     = Inr (Some sparse_24_dense)
   \<and> sparsity_structure sparse_24_dense = TWO_FOUR
   \<and> get_scheme
       (example_config float_quantized
          [(''fc'', \<lparr>weights = Some fp8_static, input_activations = None\<rparr>)]
          [(''fc'', sparse_24_dense)])
       (example_env (8, 0) True) linear_layer (Some ''fc'') []
     = (Inr (Some (CompressedTensorsW8A16Fp8 TENSOR None)),
        [Debug ''CompressedTensorsW8A16Fp8'' (Some ''fc'')])"
  by (simp add: get_scheme_def get_scheme_quant_args_def get_scheme_sparsity_def
        get_scheme_select_def supports_cutlass_24_def get_scheme_gate_def
        get_scheme_from_parts_def is_wNa16_group_channel_def
        get_scheme_from_parts_activation_def check_scheme_supported_eq
        instantiate_W8A16Fp8 static_input_scheme_def is_fp8_w8a8_def is_fp8_w8a16_def
        example_defs)

text \<open>
  Claim C4, amended. When the matched target has weight arguments and no input
  arguments, \<open>supports_cutlass_24\<close> returns \<^verbatim>\<open>False\<close> whatever the sparsity scheme, so
  \<^verbatim>\<open>get_scheme\<close> does not take the 2:4 branch: its result is that of
  \<open>get_scheme_from_parts\<close> on the quantization arguments, followed by the capability gate,
  and it raises only where one of these two raises.
\<close>

theorem weight_only_sparse:
  "get_scheme_quant_args self env layer layer_name = Inr (Some wq, None) \<and>
   get_scheme_sparsity self env layer layer_name = Inr sparsity_scheme
   \<longrightarrow> supports_cutlass_24 (Some wq) None sparsity_scheme = Inr False \<and>
       get_scheme self env layer layer_name lg
         = (case get_scheme_from_parts self env (Some wq) None of
              Inl e \<Rightarrow> (Inl e, lg)
            | Inr s \<Rightarrow> get_scheme_gate env s layer_name lg)"
  by (simp add: get_scheme_def get_scheme_select_def supports_cutlass_24_weight_only)

theorem weight_only_sparse_witness:
  "(get_scheme_quant_args
       (example_config pack_quantized
          [(''fc'', \<lparr>weights = Some (int_group 4), input_activations = None\<rparr>)]
          [(''fc'', sparse_24_dense)])
       (example_env (8, 0) True) linear_layer (Some ''fc'')
     = Inr (Some (int_group 4), None) \<and>
    get_scheme_sparsity
       (example_config pack_quantized
          [(''fc'', \<lparr>weights = Some (int_group 4), input_activations = None\<rparr>)]
          [(''fc'', sparse_24_dense)])
       (example_env (8, 0) True) linear_layer (Some ''fc'')
     = Inr (Some sparse_24_dense))
   \<and> (supports_cutlass_24 (Some (int_group 4)) None (Some sparse_24_dense) = Inr False \<and>
       get_scheme
         (example_config pack_quantized
            [(''fc'', \<lparr>weights = Some (int_group 4), input_activations = None\<rparr>)]
            [(''fc'', sparse_24_dense)])
         (example_env (8, 0) True) linear_layer (Some ''fc'') []
       = (case get_scheme_from_parts
                 (example_config pack_quantized
                    [(''fc'', \<lparr>weights = Some (int_group 4), input_activations = None\<rparr>)]
                    [(''fc'', sparse_24_dense)])
                 (example_env (8, 0) True) (Some (int_group 4)) None of
            Inl e \<Rightarrow> (Inl e, [])
          | Inr s \<Rightarrow> get_scheme_gate (example_env (8, 0) True) s (Some ''fc'') []))"
  (is "?H \<and> ?C")
proof
  show h: ?H
    by (simp add: get_scheme_quant_args_def get_scheme_sparsity_def example_defs)
  from weight_only_sparse [rule_format, OF h] show ?C .
qed

text \<open>
  Claim C5. The predicate \<open>is_dynamic_token_w8a8\<close> holds on 8-bit integer weights (per
  tensor, symmetric, static) with 8-bit dynamic per-token inputs, the format is
  activation-quantizing and neither FP8 predicate holds. \<open>get_scheme_from_parts\<close> reaches
  the call \<^verbatim>\<open>CompressedTensorsW8A8Int8(...)\<close> and raises \<^verbatim>\<open>NameError\<close> there, the module
  never having imported that name: no INT8 scheme is selected.
\<close>

theorem dynamic_token_w8a8_name_error:
  "is_dynamic_token_w8a8 (Some int8_static) (Some int8_dynamic_token) = Inr True
   \<and> is_activation_quantization_format (example_env (8, 0) True)
       (quant_format (example_config int_quantized [] []))
   \<and> \<not> is_fp8_w8a8 (Some int8_static) (Some int8_dynamic_token)
   \<and> \<not> is_fp8_w8a16 (Some int8_static) (Some int8_dynamic_token)
   \<and> is_static_tensor_w8a8 (Some int8_static) (Some int8_dynamic_token) = Inr False
   \<and> get_scheme_from_parts (example_config int_quantized [] []) (example_env (8, 0) True)
       (Some int8_static) (Some int8_dynamic_token)
       = Inl (NameError ''CompressedTensorsW8A8Int8'')"
  by (simp add: get_scheme_from_parts_def is_wNa16_input_present
        get_scheme_from_parts_activation_def is_fp8_w8a8_def is_fp8_w8a16_def
        is_static_tensor_w8a8_def is_dynamic_token_w8a8_def load_global_W8A8Int8 example_defs)

text \<open>
  Claim C6, as stated, fails: grouped, symmetric, static weights without input arguments
  get \<^verbatim>\<open>ImportError\<close> when vllm is not installed, and \<^verbatim>\<open>NotImplementedError\<close> when the
  format is not the packed one or the bit width is not a supported one.
\<close>

theorem wNa16_group_counterexample:
  "strategy (int_group 4) = GROUP \<and> symmetric (int_group 4) \<and> \<not> dynamic (int_group 4)
   \<and> get_scheme_from_parts (example_config pack_quantized [] []) (example_env (8, 0) False)
       (Some (int_group 4)) None = Inl ImportError
   \<and> get_scheme_from_parts (example_config dense [] []) (example_env (8, 0) True)
       (Some (int_group 4)) None = Inl NotImplementedError
   \<and> strategy (int_group 3) = GROUP \<and> symmetric (int_group 3) \<and> \<not> dynamic (int_group 3)
   \<and> get_scheme_from_parts (example_config pack_quantized [] []) (example_env (8, 0) True)
       (Some (int_group 3)) None = Inl NotImplementedError"
  by (simp add: get_scheme_from_parts_def is_wNa16_group_channel_def
        get_scheme_from_parts_mixed_def load_global_bits_WNA16 example_defs)

text \<open>
  Claim C6, amended. For weight arguments with strategy GROUP, symmetric and static, and
  no input arguments, when vllm is installed, the format is the packed one and the bit
  width is in \<^verbatim>\<open>WNA16_SUPPORTED_BITS\<close>, \<open>get_scheme_from_parts\<close> returns the weight-only
  scheme \<^verbatim>\<open>CompressedTensorsWNA16\<close> whose group size is that of the weight arguments
  (with their bit width, strategy and activation ordering).
\<close>

theorem wNa16_group:
  "strategy wq = GROUP \<and> symmetric wq \<and> \<not> dynamic wq \<and>
   VLLM_AVAILABLE env \<and> quant_format self = pack_quantized \<and>
   num_bits wq \<in> set (WNA16_SUPPORTED_BITS env)
   \<longrightarrow> get_scheme_from_parts self env (Some wq) None
         = Inr (CompressedTensorsWNA16 (num_bits wq) GROUP (group_size wq) (actorder wq))"
  using parts_wNa16 [of wq env self] by blast

theorem wNa16_group_witness:
  "(strategy (int_group 4) = GROUP \<and> symmetric (int_group 4) \<and> \<not> dynamic (int_group 4) \<and>
    VLLM_AVAILABLE (example_env (8, 0) True) \<and>
    quant_format (example_config pack_quantized [] []) = pack_quantized \<and>
    num_bits (int_group 4) \<in> set (WNA16_SUPPORTED_BITS (example_env (8, 0) True)))
   \<and> get_scheme_from_parts (example_config pack_quantized [] []) (example_env (8, 0) True)
       (Some (int_group 4)) None
       = Inr (CompressedTensorsWNA16 (num_bits (int_group 4)) GROUP
                (group_size (int_group 4)) (actorder (int_group 4)))"
  (is "?H \<and> ?C")
proof
  show h: ?H
    by (simp add: example_defs)
  from wNa16_group [rule_format, OF h] show ?C .
qed

text \<open>
  Claim C7. \<open>get_cache_scale\<close> rewrites the name of a k-projection or v-projection output
  scale into the name of the attention cache scale: a name \<open>p\<close> followed by
  \<^verbatim>\<open>.k_proj.output_scale\<close> becomes \<open>p\<close> followed by \<^verbatim>\<open>.attn.k_scale\<close> when the marker occurs
  nowhere earlier in the name, and likewise for the v-projection when the name holds no
  \<^verbatim>\<open>.k_proj\<close>. On the names of the specification it gives the results stated there. It
  returns \<^verbatim>\<open>None\<close> exactly when the name does not end in \<^verbatim>\<open>.output_scale\<close> or holds neither
  projection marker.
\<close>

theorem get_cache_scale_names:
  "(\<not> contains (p @ ''.k_proj.output_scal'') ''.k_proj.output_scale''
      \<longrightarrow> get_cache_scale (p @ ''.k_proj.output_scale'') = Some (p @ ''.attn.k_scale''))
   \<and> (\<not> contains (q @ ''.v_proj.output_scal'') ''.v_proj.output_scale'' \<and>
       \<not> contains (q @ ''.v_proj.output_scale'') ''.k_proj''
      \<longrightarrow> get_cache_scale (q @ ''.v_proj.output_scale'') = Some (q @ ''.attn.v_scale''))
   \<and> get_cache_scale ''model.layers.3.self_attn.k_proj.output_scale''
     = Some ''model.layers.3.self_attn.attn.k_scale''
   \<and> get_cache_scale ''model.layers.3.self_attn.v_proj.output_scale''
     = Some ''model.layers.3.self_attn.attn.v_scale''
   \<and> get_cache_scale ''x.output_scale'' = None
   \<and> (get_cache_scale name = None) =
       (\<not> (endswith name ''.output_scale'' \<and>
           (contains name ''.k_proj'' \<or> contains name ''.v_proj'')))"
proof -
  have gk: "\<not> contains (p @ ''.k_proj.output_scal'') ''.k_proj.output_scale''
      \<longrightarrow> get_cache_scale (p @ ''.k_proj.output_scale'') = Some (p @ ''.attn.k_scale'')"
    using get_cache_scale_k_proj [of p] by blast
  have gv: "\<not> contains (q @ ''.v_proj.output_scal'') ''.v_proj.output_scale'' \<and>
       \<not> contains (q @ ''.v_proj.output_scale'') ''.k_proj''
      \<longrightarrow> get_cache_scale (q @ ''.v_proj.output_scale'') = Some (q @ ''.attn.v_scale'')"
    using get_cache_scale_v_proj [of q] by blast
  have k: "get_cache_scale ''model.layers.3.self_attn.k_proj.output_scale''
     = Some ''model.layers.3.self_attn.attn.k_scale''"
    by code_simp
  have v: "get_cache_scale ''model.layers.3.self_attn.v_proj.output_scale''
     = Some ''model.layers.3.self_attn.attn.v_scale''"
    by code_simp
  have x: "get_cache_scale ''x.output_scale'' = None"
    by code_simp
  have g: "(get_cache_scale name = None) =
       (\<not> (endswith name ''.output_scale'' \<and>
           (contains name ''.k_proj'' \<or> contains name ''.v_proj'')))"
    unfolding get_cache_scale_def by auto
  from gk gv k v x g show ?thesis by blast
qed

theorem get_cache_scale_names_witness:
  "(\<not> contains (''model.layers.3.self_attn'' @ ''.k_proj.output_scal'')
        ''.k_proj.output_scale'' \<and>
    (\<not> contains (''model.layers.3.self_attn'' @ ''.v_proj.output_scal'')
        ''.v_proj.output_scale'' \<and>
     \<not> contains (''model.layers.3.self_attn'' @ ''.v_proj.output_scale'') ''.k_proj''))
   \<and> (get_cache_scale (''model.layers.3.self_attn'' @ ''.k_proj.output_scale'')
         = Some (''model.layers.3.self_attn'' @ ''.attn.k_scale'') \<and>
       get_cache_scale (''model.layers.3.self_attn'' @ ''.v_proj.output_scale'')
         = Some (''model.layers.3.self_attn'' @ ''.attn.v_scale''))"
  (is "(?HK \<and> ?HV) \<and> (?CK \<and> ?CV)")
proof -
  have hk: ?HK by code_simp
  have hv: ?HV by code_simp
  from get_cache_scale_names [THEN conjunct1, rule_format, OF hk] have ck: ?CK .
  from get_cache_scale_names [THEN conjunct2, THEN conjunct1, rule_format, OF hv]
  have cv: ?CV .
  from hk hv ck cv show ?thesis by blast
qed

text \<open>
  Claim C8. A linear layer of a model with 2:4 dense sparsity and no quantization is not
  given the 2:4-sparse scheme: with vllm available, \<^verbatim>\<open>get_quant_method\<close> raises the
  \<^verbatim>\<open>NameError\<close> of the call \<^verbatim>\<open>CompressedTensors24(...)\<close>, and the layer is left without a
  scheme. The fallback itself works: the same layer without a sparsity scheme gets the
  unquantized method after the warning.
\<close>

theorem get_quant_method_sparse_only_name_error:
  "get_quant_method (example_config dense [] [(''fc'', sparse_24_dense)])
       (example_env (9, 0) True) linear_layer ''fc'' []
     = (Inl (NameError ''CompressedTensors24''), linear_layer, [])
   \<and> get_quant_method (example_config dense [] [])
       (example_env (9, 0) True) linear_layer ''fc'' []
     = (Inr (Some UnquantizedLinearMethod), linear_layer, [Warning fallback_warning])"
  by (simp add: get_quant_method_def get_scheme_def get_scheme_quant_args_def
        get_scheme_sparsity_def get_scheme_select_def supports_cutlass_24_def
        instantiate_24 warning_once_def example_defs)



text \<open>
  Claim C10. With the weight arguments absent, the input arguments present and a sparsity
  scheme of 2:4 structure in dense or bitmask format, \<open>supports_cutlass_24\<close> fails at
  \<^verbatim>\<open>assert weight_quant is not None\<close>. This is its only error, and it returns a boolean
  on exactly the other inputs. The last conjunct is one such failing input.
\<close>

theorem supports_cutlass_24_assertion:
  "(supports_cutlass_24 w i s = Inl e) =
     (e = AssertionError \<and> w = None \<and> i \<noteq> None \<and>
      (\<exists>ss. s = Some ss \<and> sparsity_structure ss = TWO_FOUR \<and>
            (format ss = dense \<or> format ss = sparse_24_bitmask)))
   \<and> (\<exists>b. supports_cutlass_24 w i s = Inr b) =
     (\<not> (w = None \<and> i \<noteq> None \<and>
      (\<exists>ss. s = Some ss \<and> sparsity_structure ss = TWO_FOUR \<and>
            (format ss = dense \<or> format ss = sparse_24_bitmask))))
   \<and> supports_cutlass_24 None (Some int8_static) (Some sparse_24_dense) = Inl AssertionError"
  by (auto simp: supports_cutlass_24_def Let_def int8_static_def sparse_24_dense_def
        split: option.splits)

end
